theory Spec2Isabelle
  imports Main "HOL-Library.Word" "HOL-Library.Signed_Division"
begin

unbundle bit_operations_syntax

section \<open>Server: input node gain conversion (cras\_iodev\_list.c)\<close>

text \<open>
  C's \<open>long\<close> is modelled as \<open>int\<close>; C's \<open>/\<close> truncates towards zero, which is
  \<open>sdiv\<close> on \<open>int\<close>. With the gain clamped to 0..100 the product below cannot leave
  the 64-bit range (lemma \<open>convert_dBFS_in_long_range\<close>), so no wrap-around is lost.
\<close>

text \<open>
  Modelled from the spec: the macro \<open>DEFAULT_MAX_INPUT_NODE_GAIN\<close> is declared in a
  header that is not part of the sources at hand; the specification gives "max\_gain is
  2000 for non-internal mics".
\<close>

definition DEFAULT_MAX_INPUT_NODE_GAIN :: int where
  "DEFAULT_MAX_INPUT_NODE_GAIN = 2000"

text \<open>
  \<open>convert_dBFS_from_input_node_gain\<close>. The first argument stands for the value
  returned by \<open>cras_system_get_max_internal_mic_gain()\<close> (system state, board
  configured).
\<close>

definition convert_dBFS_from_input_node_gain :: "int \<Rightarrow> int \<Rightarrow> bool \<Rightarrow> int" where
  "convert_dBFS_from_input_node_gain max_internal_mic_gain gain is_internal_mic =
     (let max_gain = (if is_internal_mic then max_internal_mic_gain
                      else DEFAULT_MAX_INPUT_NODE_GAIN);
          gain1 = (if gain < 0 then 0 else gain);
          gain2 = (if gain1 > 100 then 100 else gain1);
          db_scale = (if gain2 > 50 then max_gain sdiv 50 else 40)
      in (gain2 - 50) * db_scale)"

section \<open>Client: per-stream audio thread (cras\_client.c)\<close>

subsection \<open>Constants and enumerations\<close>

text \<open>Linux errno values used by the modelled functions (system headers).\<close>

definition EIO :: int where "EIO = 5"
definition EAGAIN :: int where "EAGAIN = 11"
definition ENOMEM :: int where "ENOMEM = 12"
definition EEXIST :: int where "EEXIST = 17"
definition EINVAL :: int where "EINVAL = 22"
definition EPIPE :: int where "EPIPE = 32"
definition ENOTSUP :: int where "ENOTSUP = 95"

text \<open>
  Modelled from the spec: \<open>enum CRAS_STREAM_DIRECTION\<close> is declared in
  \<open>cras_types.h\<close>, which is not among the sources. The specification lists the
  directions OUTPUT, INPUT and the loopback taps POST\_MIX\_PRE\_DSP, POST\_DSP,
  POST\_DSP\_DELAYED.
\<close>

datatype CRAS_STREAM_DIRECTION =
    CRAS_STREAM_OUTPUT
  | CRAS_STREAM_INPUT
  | CRAS_STREAM_POST_MIX_PRE_DSP
  | CRAS_STREAM_POST_DSP
  | CRAS_STREAM_POST_DSP_DELAYED

text \<open>
  Modelled from the spec: \<open>cras_stream_uses_output_hw\<close> and \<open>cras_stream_has_input\<close>
  (absent header). "A direction is input-like if it reads from the world (INPUT and all
  loopback), output-like if it writes to the world (OUTPUT)."
\<close>

definition cras_stream_uses_output_hw :: "CRAS_STREAM_DIRECTION \<Rightarrow> bool" where
  "cras_stream_uses_output_hw dir = (dir = CRAS_STREAM_OUTPUT)"

definition cras_stream_has_input :: "CRAS_STREAM_DIRECTION \<Rightarrow> bool" where
  "cras_stream_has_input dir = (dir \<noteq> CRAS_STREAM_OUTPUT)"

text \<open>
  Audio message ids. The enum is declared in an absent header; the three constants are
  the ones \<open>cras_client.c\<close> names, and \<open>AUDIO_MESSAGE_OTHER v\<close> stands for any other
  value \<open>v\<close> read from the wire.
\<close>

datatype CRAS_AUDIO_MESSAGE_ID =
    AUDIO_MESSAGE_REQUEST_DATA
  | AUDIO_MESSAGE_DATA_READY
  | AUDIO_MESSAGE_DATA_CAPTURED
  | AUDIO_MESSAGE_OTHER nat

text \<open>
  \<open>struct audio_message\<close>: the fields hold the values the code assigns to them
  (\<open>frames\<close> is an \<open>unsigned int\<close> argument, \<open>error\<close> an \<open>int\<close> argument of the
  reply functions).
\<close>

record audio_message =
  am_id :: CRAS_AUDIO_MESSAGE_ID
  am_error :: int
  am_frames :: "32 word"

text \<open>Messages a stream sends to its client on the stream pipe.\<close>

datatype stream_msg_id = CLIENT_STREAM_EOF

record stream_msg =
  sm_msg_id :: stream_msg_id
  sm_stream_id :: "32 word"

datatype CRAS_THREAD_STATE = CRAS_THREAD_STOP | CRAS_THREAD_WARMUP | CRAS_THREAD_RUNNING

subsection \<open>Streams\<close>

text \<open>
  \<open>struct cras_stream_params\<close>, the fields the audio thread reads. A user callback is
  a function from the number of frames offered to the C \<open>int\<close> it returns
  (a 32-bit word, read as signed with \<open>sint\<close>; converting it to
  \<open>unsigned int\<close> keeps the bits). The handlers
  try \<open>stream_cb\<close>, then \<open>unified_cb\<close>, then call \<open>aud_cb\<close>; \<open>cras_client_add_stream\<close>
  rejects parameters with all three \<open>NULL\<close>, so \<open>aud_cb\<close> is a function whenever the
  last branch is reached.
\<close>

record cras_stream_params =
  buffer_frames :: nat
  cb_threshold :: nat
  stream_cb :: "(nat \<Rightarrow> 32 word) option"
  unified_cb :: "(nat \<Rightarrow> 32 word) option"
  aud_cb :: "nat \<Rightarrow> 32 word"

text \<open>
  \<open>struct client_stream\<close>. The shared memory area \<open>'shm\<close> is kept abstract: the
  functions of \<open>cras_shm.h\<close> that the handlers call are not among the sources and are
  passed in as \<open>shm_ops\<close>.
\<close>

record 'shm client_stream =
  cs_id :: "32 word"
  cs_aud_fd :: int
  cs_direction :: CRAS_STREAM_DIRECTION
  cs_flags :: "32 word"
  cs_config :: cras_stream_params
  cs_shm :: 'shm

record 'shm shm_ops =
  cras_shm_get_curr_read_frames :: "'shm \<Rightarrow> nat"
  cras_shm_buffer_read_current :: "'shm \<Rightarrow> nat \<Rightarrow> 'shm"
  cras_shm_buffer_written_start :: "'shm \<Rightarrow> nat \<Rightarrow> 'shm"

text \<open>
  What the environment decides during one handler call, and the constants of absent
  headers: the flag mask \<open>BULK_AUDIO_OK\<close>, the predicate
  \<open>cras_stream_uses_input_hw\<close> and \<open>sizeof(struct audio_message)\<close>.
\<close>

record handler_env =
  BULK_AUDIO_OK :: "32 word"
  cras_stream_uses_input_hw :: "CRAS_STREAM_DIRECTION \<Rightarrow> bool"
  sizeof_aud_msg :: int
  cb_data_errno :: "int option"
    \<comment> \<open>\<open>None\<close>: \<open>libcras_stream_cb_data_create\<close> returned the data;
        \<open>Some e\<close>: it returned \<open>NULL\<close> with \<open>errno = e\<close>\<close>
  aud_write_rc :: int
    \<comment> \<open>what \<open>write(stream->aud_fd, ...)\<close> returns\<close>

text \<open>What a handler does besides returning: the calls an observer can see, in order.\<close>

datatype audio_event =
    User_callback nat
      \<comment> \<open>the user callback was invoked with this many frames\<close>
  | Stream_pipe_write stream_msg
      \<comment> \<open>\<open>send_stream_message\<close>: a write on \<open>stream_fds[1]\<close>\<close>
  | Aud_fd_write audio_message
      \<comment> \<open>a write of this message on \<open>aud_fd\<close>\<close>
  | Syslog_warning

record 'shm handled =
  h_rc :: int
  h_stream :: "'shm client_stream"
  h_events :: "audio_event list"

subsection \<open>Handlers\<close>

definition send_stream_message :: "'shm client_stream \<Rightarrow> stream_msg_id \<Rightarrow> audio_event list" where
  "send_stream_message stream msg_id =
     [Stream_pipe_write \<lparr>sm_msg_id = msg_id, sm_stream_id = cs_id stream\<rparr>]"

definition config_capture_buf :: "'shm shm_ops \<Rightarrow> handler_env \<Rightarrow> 'shm client_stream \<Rightarrow> nat \<Rightarrow> nat" where
  "config_capture_buf ops env stream num_frames =
     (let num_frames1 =
            (if cs_flags stream AND BULK_AUDIO_OK env \<noteq> 0
             then min num_frames (buffer_frames (cs_config stream))
             else min num_frames (cb_threshold (cs_config stream)))
      in if cras_shm_get_curr_read_frames ops (cs_shm stream) < num_frames1 then 0
         else num_frames1)"

definition send_capture_reply ::
    "handler_env \<Rightarrow> 'shm client_stream \<Rightarrow> 32 word \<Rightarrow> int \<Rightarrow> int \<times> audio_event list" where
  "send_capture_reply env stream frames err =
     (if \<not> cras_stream_uses_input_hw env (cs_direction stream) then (0, [])
      else (if aud_write_rc env \<noteq> sizeof_aud_msg env then - EPIPE else 0,
            [Aud_fd_write \<lparr>am_id = AUDIO_MESSAGE_DATA_CAPTURED, am_error = err,
                           am_frames = frames\<rparr>]))"

definition handle_capture_data_ready ::
    "'shm shm_ops \<Rightarrow> handler_env \<Rightarrow> 'shm client_stream \<Rightarrow> 32 word \<Rightarrow> 'shm handled" where
  "handle_capture_data_ready ops env stream num_frames0 =
     (let config = cs_config stream in
      if \<not> cras_stream_has_input (cs_direction stream)
      then \<lparr>h_rc = 0, h_stream = stream, h_events = [Syslog_warning]\<rparr>
      else
        let num_frames = config_capture_buf ops env stream (unat num_frames0) in
        if num_frames = 0 then \<lparr>h_rc = 0, h_stream = stream, h_events = []\<rparr>
        else
          (case (case stream_cb config of
                   Some cb \<Rightarrow>
                     (case cb_data_errno env of
                        Some e \<Rightarrow> Inl (- e)
                      | None \<Rightarrow> Inr (cb num_frames))
                 | None \<Rightarrow>
                     (case unified_cb config of
                        Some cb \<Rightarrow> Inr (cb num_frames)
                      | None \<Rightarrow> Inr (aud_cb config num_frames))) of
             Inl rc \<Rightarrow> \<lparr>h_rc = rc, h_stream = stream, h_events = []\<rparr>
           | Inr frames \<Rightarrow>
               if sint frames < 0 then
                 (let (rc, evs) = send_capture_reply env stream frames (sint frames)
                  in \<lparr>h_rc = rc, h_stream = stream,
                       h_events = User_callback num_frames
                         # send_stream_message stream CLIENT_STREAM_EOF @ evs\<rparr>)
               else if frames = 0 then
                 \<lparr>h_rc = 0, h_stream = stream, h_events = [User_callback num_frames]\<rparr>
               else
                 (let stream1 = stream\<lparr>cs_shm :=
                        cras_shm_buffer_read_current ops (cs_shm stream) (nat (sint frames))\<rparr>;
                      (rc, evs) = send_capture_reply env stream1 frames 0
                  in \<lparr>h_rc = rc, h_stream = stream1,
                       h_events = User_callback num_frames # evs\<rparr>)))"

definition send_playback_reply ::
    "handler_env \<Rightarrow> 'shm client_stream \<Rightarrow> 32 word \<Rightarrow> int \<Rightarrow> int \<times> audio_event list" where
  "send_playback_reply env stream frames error =
     (if \<not> cras_stream_uses_output_hw (cs_direction stream) then (0, [])
      else (if aud_write_rc env \<noteq> sizeof_aud_msg env then - EPIPE else 0,
            [Aud_fd_write \<lparr>am_id = AUDIO_MESSAGE_DATA_READY, am_error = error,
                           am_frames = frames\<rparr>]))"

definition handle_playback_request ::
    "'shm shm_ops \<Rightarrow> handler_env \<Rightarrow> 'shm client_stream \<Rightarrow> 32 word \<Rightarrow> 'shm handled" where
  "handle_playback_request ops env stream num_frames0 =
     (let config = cs_config stream in
      if cs_direction stream \<noteq> CRAS_STREAM_OUTPUT
      then \<lparr>h_rc = 0, h_stream = stream, h_events = [Syslog_warning]\<rparr>
      else
        let num_frames = min (unat num_frames0) (cb_threshold config) in
        (case (case stream_cb config of
                 Some cb \<Rightarrow>
                   (case cb_data_errno env of
                      Some e \<Rightarrow> Inl (- e)
                    | None \<Rightarrow> Inr (cb num_frames))
               | None \<Rightarrow>
                   (case unified_cb config of
                      Some cb \<Rightarrow> Inr (cb num_frames)
                    | None \<Rightarrow> Inr (aud_cb config num_frames))) of
           Inl rc \<Rightarrow> \<lparr>h_rc = rc, h_stream = stream, h_events = []\<rparr>
         | Inr frames \<Rightarrow>
             if sint frames < 0 then
               (let (rc, evs) = send_playback_reply env stream frames (sint frames)
                in \<lparr>h_rc = rc, h_stream = stream,
                     h_events = User_callback num_frames
                       # send_stream_message stream CLIENT_STREAM_EOF @ evs\<rparr>)
             else
               (let stream1 = stream\<lparr>cs_shm :=
                      cras_shm_buffer_written_start ops (cs_shm stream) (nat (sint frames))\<rparr>;
                    (rc, evs) = send_playback_reply env stream1 frames 0
                in \<lparr>h_rc = rc, h_stream = stream1,
                     h_events = User_callback num_frames # evs\<rparr>)))"

subsection \<open>The audio thread loop\<close>

text \<open>
  What one pass of the loop in \<open>audio_thread\<close> gets from its environment: the thread
  state the control thread has set, the outcome of \<open>poll\<close> and of the two reads in
  \<open>read_with_wake_fd\<close>, the message a complete read delivers, and the environment of
  the handler call.
\<close>

record iter_env =
  it_thread_state :: CRAS_THREAD_STATE
  poll_rc :: int
  aud_pollin :: bool
    \<comment> \<open>\<open>pollfds[1].revents & POLLIN\<close>\<close>
  aud_nread :: int
    \<comment> \<open>what \<open>read(read_fd, buf, len)\<close> returns\<close>
  aud_msg_in :: audio_message
  wake_pollin :: bool
    \<comment> \<open>\<open>pollfds[0].revents & POLLIN\<close>\<close>
  wake_read_rc :: int
  it_handler_env :: handler_env

definition read_with_wake_fd :: "iter_env \<Rightarrow> int \<Rightarrow> int \<Rightarrow> int" where
  "read_with_wake_fd e read_fd len =
     (if poll_rc e < 0 then poll_rc e
      else if read_fd \<ge> 0 \<and> aud_pollin e \<and> aud_nread e \<noteq> len then - EIO
      else
        let nread = (if read_fd \<ge> 0 \<and> aud_pollin e then aud_nread e else 0) in
        if wake_pollin e \<and> wake_read_rc e < 0 then wake_read_rc e
        else nread)"

text \<open>
  How the thread function ends: it returns \<open>(void * )-EIO\<close> or \<open>NULL\<close>, or it is
  still blocked in \<open>poll\<close> when the recorded inputs are used up.
\<close>

datatype thread_exit = Thread_returned int | Thread_returned_NULL | Thread_blocked

text \<open>
  One pass of the \<open>while\<close> loop of \<open>audio_thread\<close>, from the test of the loop
  condition to the end of the \<open>switch\<close>. The second argument is
  \<open>thread_terminated\<close>. The result says whether the thread function returned in this
  pass (and what), and gives the new \<open>thread_terminated\<close>, the stream and the events
  of the pass.
\<close>

definition audio_thread_pass ::
    "'shm shm_ops \<Rightarrow> int \<Rightarrow> 'shm client_stream \<Rightarrow> iter_env
       \<Rightarrow> thread_exit option \<times> int \<times> 'shm client_stream \<times> audio_event list" where
  "audio_thread_pass ops thread_terminated stream e =
     (if \<not> (it_thread_state e \<noteq> CRAS_THREAD_STOP \<and> thread_terminated = 0)
      then (Some Thread_returned_NULL, thread_terminated, stream, [])
      else
        let aud_fd = (if it_thread_state e = CRAS_THREAD_WARMUP then - 1 else cs_aud_fd stream);
            num_read = read_with_wake_fd e aud_fd (sizeof_aud_msg (it_handler_env e))
        in if num_read < 0 then (Some (Thread_returned (- EIO)), thread_terminated, stream, [])
           else if num_read = 0 then (None, thread_terminated, stream, [])
           else
             (case am_id (aud_msg_in e) of
                AUDIO_MESSAGE_DATA_READY \<Rightarrow>
                  (let r = handle_capture_data_ready ops (it_handler_env e) stream
                             (am_frames (aud_msg_in e))
                   in (None, h_rc r, h_stream r, h_events r))
              | AUDIO_MESSAGE_REQUEST_DATA \<Rightarrow>
                  (let r = handle_playback_request ops (it_handler_env e) stream
                             (am_frames (aud_msg_in e))
                   in (None, h_rc r, h_stream r, h_events r))
              | _ \<Rightarrow> (None, thread_terminated, stream, [])))"

text \<open>
  The loop, one list element per pass; the events of all passes are collected in
  order. When the recorded inputs are used up the loop condition is tested once more:
  with \<open>thread_terminated\<close> set the thread returns \<open>NULL\<close>, otherwise it is blocked in
  \<open>poll\<close>.
\<close>

fun audio_thread_loop ::
    "'shm shm_ops \<Rightarrow> int \<Rightarrow> 'shm client_stream \<Rightarrow> iter_env list
       \<Rightarrow> thread_exit \<times> 'shm client_stream \<times> audio_event list" where
  "audio_thread_loop ops thread_terminated stream [] =
     (if thread_terminated \<noteq> 0 then (Thread_returned_NULL, stream, [])
      else (Thread_blocked, stream, []))"
| "audio_thread_loop ops thread_terminated stream (e # es) =
     (case audio_thread_pass ops thread_terminated stream e of
        (Some x, _, stream1, evs) \<Rightarrow> (x, stream1, evs)
      | (None, thread_terminated1, stream1, evs) \<Rightarrow>
          (case audio_thread_loop ops thread_terminated1 stream1 es of
             (x, stream2, evs2) \<Rightarrow> (x, stream2, evs @ evs2)))"

definition audio_thread ::
    "'shm shm_ops \<Rightarrow> 'shm client_stream option \<Rightarrow> iter_env list
       \<Rightarrow> thread_exit \<times> 'shm client_stream option \<times> audio_event list" where
  "audio_thread ops arg es =
     (case arg of
        None \<Rightarrow> (Thread_returned (- EIO), None, [])
      | Some stream \<Rightarrow>
          (let (x, stream', evs) = audio_thread_loop ops 0 stream es
           in (x, Some stream', evs)))"

subsection \<open>The shared audio buffer header\<close>

text \<open>
  Modelled from the spec: the header of the shared audio buffer and
  \<open>cras_shm_buffer_written_start\<close> are declared in \<open>cras_shm.h\<close>, which is not among
  the sources. The specification describes the header fields (\<open>write_buf_idx\<close>,
  \<open>write_offset[2]\<close> in bytes, \<open>frame_bytes\<close>, ...) and says that on a playback
  request the client advances the write pointer by the \<open>k\<close> frames written
  ("advance \<open>write_offset\<close> by \<open>480 * 4\<close>" for 480 frames of 4 bytes).
\<close>

record sab_header =
  read_buf_idx :: nat
  write_buf_idx :: nat
  read_offset :: "nat \<Rightarrow> nat"
  write_offset :: "nat \<Rightarrow> nat"
  frame_bytes :: nat
  used_size :: nat

definition sab_buffer_written_start :: "sab_header \<Rightarrow> nat \<Rightarrow> sab_header" where
  "sab_buffer_written_start shm frames =
     shm\<lparr>write_offset := (write_offset shm)
            (write_buf_idx shm := write_offset shm (write_buf_idx shm) + frames * frame_bytes shm)\<rparr>"

text \<open>
  Modelled from the spec: the reader's side of the same header, used to run the
  handlers on concrete buffers. The reader drains buffer \<open>read_buf_idx\<close>; with
  \<open>read_offset[i] \<le> write_offset[i]\<close> the frames it can still read are the bytes
  between the two offsets divided by \<open>frame_bytes\<close>.
\<close>

definition sab_get_curr_read_frames :: "sab_header \<Rightarrow> nat" where
  "sab_get_curr_read_frames shm =
     (write_offset shm (read_buf_idx shm) - read_offset shm (read_buf_idx shm))
       div frame_bytes shm"

definition sab_buffer_read_current :: "sab_header \<Rightarrow> nat \<Rightarrow> sab_header" where
  "sab_buffer_read_current shm frames =
     shm\<lparr>read_offset := (read_offset shm)
            (read_buf_idx shm := read_offset shm (read_buf_idx shm) + frames * frame_bytes shm)\<rparr>"

definition sab_ops :: "sab_header shm_ops" where
  "sab_ops = \<lparr>cras_shm_get_curr_read_frames = sab_get_curr_read_frames,
              cras_shm_buffer_read_current = sab_buffer_read_current,
              cras_shm_buffer_written_start = sab_buffer_written_start\<rparr>"

text \<open>
  An iteration of the loop hands message \<open>msg\<close> to the \<open>switch\<close>: the thread is
  running, \<open>poll\<close> succeeded, the audio fd was readable and the read returned a whole
  (non-empty) message, and the wake pipe, if it was readable, was read without error.
\<close>

definition delivers :: "iter_env \<Rightarrow> 'shm client_stream \<Rightarrow> audio_message \<Rightarrow> bool" where
  "delivers e stream msg \<longleftrightarrow>
     it_thread_state e = CRAS_THREAD_RUNNING \<and> 0 \<le> poll_rc e \<and> 0 \<le> cs_aud_fd stream
     \<and> aud_pollin e \<and> aud_nread e = sizeof_aud_msg (it_handler_env e)
     \<and> 0 < sizeof_aud_msg (it_handler_env e)
     \<and> \<not> (wake_pollin e \<and> wake_read_rc e < 0) \<and> aud_msg_in e = msg"

subsection \<open>Concrete streams for evaluation\<close>

text \<open>
  The stream of the specification's round-trip scenario: OUTPUT, 2 channels of
  16-bit samples (4 bytes per frame), \<open>buffer_frames = 4096\<close>, \<open>cb_threshold = 480\<close>;
  its callback fills all the frames it is offered.
\<close>

definition example_env :: handler_env where
  "example_env = \<lparr>BULK_AUDIO_OK = 1, cras_stream_uses_input_hw = (\<lambda>d. d = CRAS_STREAM_INPUT),
     sizeof_aud_msg = 6, cb_data_errno = None, aud_write_rc = 6\<rparr>"

definition example_shm :: sab_header where
  "example_shm = \<lparr>read_buf_idx = 0, write_buf_idx = 0, read_offset = (\<lambda>_. 0),
     write_offset = (\<lambda>_. 0), frame_bytes = 4, used_size = 16384\<rparr>"

definition example_config :: cras_stream_params where
  "example_config = \<lparr>buffer_frames = 4096, cb_threshold = 480, stream_cb = None,
     unified_cb = None, aud_cb = (\<lambda>n. of_nat n)\<rparr>"

definition example_playback :: "sab_header client_stream" where
  "example_playback = \<lparr>cs_id = 0x10000, cs_aud_fd = 5, cs_direction = CRAS_STREAM_OUTPUT,
     cs_flags = 0, cs_config = example_config, cs_shm = example_shm\<rparr>"

definition example_capture :: "sab_header client_stream" where
  "example_capture = example_playback\<lparr>cs_direction := CRAS_STREAM_INPUT\<rparr>"

definition example_iter :: "audio_message \<Rightarrow> iter_env" where
  "example_iter msg = \<lparr>it_thread_state = CRAS_THREAD_RUNNING, poll_rc = 1, aud_pollin = True,
     aud_nread = 6, aud_msg_in = msg, wake_pollin = False, wake_read_rc = 0,
     it_handler_env = example_env\<rparr>"

section \<open>Client: adding and removing streams (cras\_client.c)\<close>

text \<open>
  Modelled from the spec: \<open>cras_get_stream_id\<close> is declared in \<open>cras_types.h\<close>, which
  is not among the sources. The specification: the stream identifier is a "32-bit value
  formed by \<open>(client_id << 16) | stream_index\<close>, unique per (client, stream) pair".
  Both parts are 16-bit values here, so that the pair determines the 32-bit value and is
  determined by it; the caller's \<open>int\<close> client id and 32-bit \<open>next_stream_id\<close> are
  truncated to 16 bits by the call.
\<close>

definition cras_get_stream_id :: "16 word \<Rightarrow> 16 word \<Rightarrow> 32 word" where
  "cras_get_stream_id client_id stream_id = push_bit 16 (ucast client_id) OR ucast stream_id"













section \<open>Server: flexible loopback requests (cras\_iodev\_list.c)\<close>

definition NUM_FLOOP_PAIRS_MAX :: nat where
  "NUM_FLOOP_PAIRS_MAX = 20"

text \<open>
  What \<open>cras_iodev_list_request_floop\<close> takes from other modules, none of them among
  the sources: whether the feature \<open>CrOSLateBootAudioFlexibleLoopback\<close> is enabled,
  \<open>cras_floop_pair_match_params\<close>, \<open>cras_floop_pair_create\<close> (which returns \<open>NULL\<close>
  when it cannot create the pair) and the field \<open>input.info.idx\<close> of a pair. The type
  of pairs and of request parameters is left open.
\<close>

record ('pair, 'params) floop_env =
  feature_flexible_loopback :: bool
  cras_floop_pair_match_params :: "'pair \<Rightarrow> 'params \<Rightarrow> bool"
  cras_floop_pair_create :: "'params \<Rightarrow> 'pair option"
  floop_input_idx :: "'pair \<Rightarrow> 32 word"

text \<open>
  The \<open>DL_FOREACH\<close> over \<open>floop_pair_list\<close>: it returns from the function at the first
  pair that matches (\<open>Inl\<close>), and otherwise counts the pairs (\<open>Inr\<close>).
\<close>

fun floop_scan :: "('pair \<Rightarrow> bool) \<Rightarrow> 'pair list \<Rightarrow> nat \<Rightarrow> 'pair + nat" where
  "floop_scan matches [] count = Inr count"
| "floop_scan matches (fpair # rest) count =
     (if matches fpair then Inl fpair else floop_scan matches rest (count + 1))"

text \<open>
  The outcome of a request: the \<open>int\<close> returned (the index is a \<open>uint32_t\<close> converted
  to \<open>int\<close>), the pair list afterwards, and whether \<open>cras_floop_pair_create\<close> was
  called.
\<close>

record 'pair floop_result =
  rf_rc :: int
  rf_list :: "'pair list"
  rf_create_called :: bool

definition cras_iodev_list_request_floop ::
    "('pair, 'params) floop_env \<Rightarrow> 'pair list \<Rightarrow> 'params \<Rightarrow> 'pair floop_result" where
  "cras_iodev_list_request_floop env floop_pair_list params =
     (if \<not> feature_flexible_loopback env
      then \<lparr>rf_rc = - ENOTSUP, rf_list = floop_pair_list, rf_create_called = False\<rparr>
      else
        (case floop_scan (\<lambda>fpair. cras_floop_pair_match_params env fpair params)
                floop_pair_list 0 of
           Inl fpair \<Rightarrow>
             \<lparr>rf_rc = sint (floop_input_idx env fpair), rf_list = floop_pair_list,
              rf_create_called = False\<rparr>
         | Inr count \<Rightarrow>
             if count \<ge> NUM_FLOOP_PAIRS_MAX
             then \<lparr>rf_rc = - EAGAIN, rf_list = floop_pair_list, rf_create_called = False\<rparr>
             else
               (case cras_floop_pair_create env params of
                  None \<Rightarrow>
                    \<lparr>rf_rc = - ENOMEM, rf_list = floop_pair_list, rf_create_called = True\<rparr>
                | Some fpair \<Rightarrow>
                    \<lparr>rf_rc = sint (floop_input_idx env fpair),
                     rf_list = floop_pair_list @ [fpair], rf_create_called = True\<rparr>)))"

text \<open>A sequence of requests; the result is the list of return values and the final list.\<close>

fun request_floop_seq ::
    "('pair, 'params) floop_env \<Rightarrow> 'pair list \<Rightarrow> 'params list \<Rightarrow> int list \<times> 'pair list" where
  "request_floop_seq env floop_pair_list [] = ([], floop_pair_list)"
| "request_floop_seq env floop_pair_list (params # rest) =
     (let r = cras_iodev_list_request_floop env floop_pair_list params;
          (rcs, l) = request_floop_seq env (rf_list r) rest
      in (rf_rc r # rcs, l))"

text \<open>
  Environments for evaluation. A pair is its \<open>client_types_mask\<close> together with the
  index of its input device; two parameters match when the masks are equal. In the
  first environment pair creation succeeds (the pair for mask \<open>m\<close> gets input index
  \<open>m + 100\<close>), in the second it fails.
\<close>

definition example_floop_env :: "(32 word \<times> 32 word, 32 word) floop_env" where
  "example_floop_env = \<lparr>feature_flexible_loopback = True,
     cras_floop_pair_match_params = (\<lambda>fpair mask. fst fpair = mask),
     cras_floop_pair_create = (\<lambda>mask. Some (mask, mask + 100)),
     floop_input_idx = snd\<rparr>"

definition example_floop_env_nomem :: "(32 word \<times> 32 word, 32 word) floop_env" where
  "example_floop_env_nomem = example_floop_env\<lparr>cras_floop_pair_create := (\<lambda>mask. None)\<rparr>"

text \<open>The pair list after the twenty masks 1, ..., 20 have been requested.\<close>

definition example_floop_pairs :: "(32 word \<times> 32 word) list" where
  "example_floop_pairs = map (\<lambda>mask. (mask, mask + 100))
     [1, 2, 3, 4, 5, 6, 7, 8, 9, 10, 11, 12, 13, 14, 15, 16, 17, 18, 19, 20]"

section \<open>Server: the NC-blocked state (cras\_iodev\_list.c)\<close>

text \<open>
  The two file-level flags \<open>non_dsp_aec_echo_ref_dev_alive\<close> and
  \<open>aec_on_dsp_is_disallowed\<close>.
\<close>

record nc_flags =
  non_dsp_aec_echo_ref_dev_alive :: bool
  aec_on_dsp_is_disallowed :: bool

text \<open>
  The system state that the functions read through \<open>cras_system_get_...\<close> (the system
  state module is not among the sources).
\<close>

record nc_system =
  noise_cancellation_standalone_mode :: bool
  dsp_noise_cancellation_supported :: bool
  bypass_block_noise_cancellation :: bool

text \<open>
  What \<open>update_nc_blocked_state\<close> does besides updating the flags, in order; the
  \<open>MAINLOG\<close> entry carries the edge type (0: set to false, 1: set to true, 2: no
  edge) and the two flags.
\<close>

datatype nc_event =
    Syslog_nc_blocked bool
  | Update_device_list
  | Notify_nodes_changed
  | Mainlog_nc_block_state nat bool bool

definition get_nc_blocked_state :: "nc_system \<Rightarrow> nc_flags \<Rightarrow> bool" where
  "get_nc_blocked_state sys flags =
     (if noise_cancellation_standalone_mode sys then non_dsp_aec_echo_ref_dev_alive flags
      else non_dsp_aec_echo_ref_dev_alive flags \<or> aec_on_dsp_is_disallowed flags)"

definition update_nc_blocked_state ::
    "nc_system \<Rightarrow> nc_flags \<Rightarrow> bool \<Rightarrow> bool \<Rightarrow> nc_flags \<times> nc_event list" where
  "update_nc_blocked_state sys flags new_non_dsp_aec_echo_ref_dev_alive
       new_aec_on_dsp_is_disallowed =
     (let prev_state = get_nc_blocked_state sys flags;
          flags1 = \<lparr>non_dsp_aec_echo_ref_dev_alive = new_non_dsp_aec_echo_ref_dev_alive,
                    aec_on_dsp_is_disallowed = new_aec_on_dsp_is_disallowed\<rparr>
      in if prev_state \<noteq> get_nc_blocked_state sys flags1
         then
           if \<not> dsp_noise_cancellation_supported sys \<or> bypass_block_noise_cancellation sys
           then (flags1, [])
           else (flags1,
                 [Syslog_nc_blocked (get_nc_blocked_state sys flags1),
                  Update_device_list, Notify_nodes_changed,
                  Mainlog_nc_block_state (if get_nc_blocked_state sys flags1 then 1 else 0)
                    new_non_dsp_aec_echo_ref_dev_alive new_aec_on_dsp_is_disallowed])
         else (flags1,
               [Mainlog_nc_block_state 2 new_non_dsp_aec_echo_ref_dev_alive
                  new_aec_on_dsp_is_disallowed]))"

definition set_non_dsp_aec_echo_ref_dev_alive ::
    "nc_system \<Rightarrow> nc_flags \<Rightarrow> bool \<Rightarrow> nc_flags \<times> nc_event list" where
  "set_non_dsp_aec_echo_ref_dev_alive sys flags state =
     update_nc_blocked_state sys flags state (aec_on_dsp_is_disallowed flags)"

definition set_aec_on_dsp_is_disallowed ::
    "nc_system \<Rightarrow> nc_flags \<Rightarrow> bool \<Rightarrow> nc_flags \<times> nc_event list" where
  "set_aec_on_dsp_is_disallowed sys flags state =
     update_nc_blocked_state sys flags (non_dsp_aec_echo_ref_dev_alive flags) state"

definition cras_iodev_list_set_aec_on_dsp_is_disallowed ::
    "nc_system \<Rightarrow> nc_flags \<Rightarrow> bool \<Rightarrow> nc_flags \<times> nc_event list" where
  "cras_iodev_list_set_aec_on_dsp_is_disallowed sys flags is_disallowed =
     (if aec_on_dsp_is_disallowed flags = is_disallowed then (flags, [])
      else set_aec_on_dsp_is_disallowed sys flags is_disallowed)"

section \<open>Theorems\<close>

lemma sdiv_50_scaled_bound:
  assumes "- (2 ^ 63) \<le> (m::int)" and "m < 2 ^ 63" and "0 \<le> k" and "k \<le> 50"
  shows "\<bar>k * (m sdiv 50)\<bar> < 2 ^ 63"
proof -
  have "\<bar>m\<bar> \<le> 9223372036854775808" using assms(1,2) by simp
  then have "\<bar>m\<bar> div 50 \<le> 9223372036854775808 div 50" by (rule zdiv_mono1) simp
  then have d: "\<bar>m\<bar> div 50 \<le> 184467440737095516" by simp
  have "\<bar>m sdiv 50\<bar> = \<bar>m\<bar> div 50"
    by (cases "m = 0") (simp_all add: signed_divide_int_def abs_mult abs_sgn_eq)
  then have "\<bar>k * (m sdiv 50)\<bar> = k * (\<bar>m\<bar> div 50)"
    using assms(3) by (simp add: abs_mult)
  also have "\<dots> \<le> 50 * (\<bar>m\<bar> div 50)"
    using assms(4) by (intro mult_right_mono) (auto simp: pos_imp_zdiv_nonneg_iff)
  also have "\<dots> \<le> 50 * 184467440737095516" using d by simp
  finally show ?thesis by simp
qed

lemma convert_dBFS_in_long_range:
  assumes "- (2 ^ 63) \<le> m" and "m < 2 ^ 63"
  shows "- (2 ^ 63) \<le> convert_dBFS_from_input_node_gain m g b
       \<and> convert_dBFS_from_input_node_gain m g b < 2 ^ 63"
proof (cases "b \<and> 50 < g")
  case True
  define k where "k = (if g > 100 then 100 else g) - 50"
  have k: "0 \<le> k" "k \<le> 50" using True by (auto simp: k_def)
  have "convert_dBFS_from_input_node_gain m g b = k * (m sdiv 50)"
    using True by (auto simp: convert_dBFS_from_input_node_gain_def k_def Let_def)
  moreover have "\<bar>k * (m sdiv 50)\<bar> < 2 ^ 63"
    using sdiv_50_scaled_bound [OF assms k] .
  ultimately show ?thesis by (simp add: abs_less_iff)
next
  case False
  then have "\<bar>convert_dBFS_from_input_node_gain m g b\<bar> \<le> 2000"
    by (auto simp: convert_dBFS_from_input_node_gain_def Let_def
        DEFAULT_MAX_INPUT_NODE_GAIN_def signed_divide_int_def)
  then show ?thesis by (simp add: abs_le_iff)
qed

text \<open>
  C9. For every input node gain \<open>g\<close> in 0..100 on a non-internal mic the converted
  value is \<open>(g - 50) * 40\<close> (in 100*dBFS units): gains below 50 land in
  \<open>[-2000, 0)\<close>, gains from 50 on land in \<open>[0, 2000]\<close>, and the end points
  \<open>-2000\<close>, \<open>0\<close> and \<open>2000\<close> are reached at 0, 50 and 100. For an internal mic
  the upper half \<open>[50, 100]\<close> scales by the board-configured maximum gain divided by
  50 (C division), the lower half keeps the factor 40.
\<close>

theorem convert_dBFS_from_input_node_gain_piecewise:
  assumes "0 \<le> g" and "g \<le> 100"
  shows "convert_dBFS_from_input_node_gain m g False = (g - 50) * 40
    \<and> (g < 50 \<longrightarrow> - 2000 \<le> convert_dBFS_from_input_node_gain m g False
                  \<and> convert_dBFS_from_input_node_gain m g False < 0)
    \<and> (50 \<le> g \<longrightarrow> 0 \<le> convert_dBFS_from_input_node_gain m g False
                  \<and> convert_dBFS_from_input_node_gain m g False \<le> DEFAULT_MAX_INPUT_NODE_GAIN)
    \<and> convert_dBFS_from_input_node_gain m 0 False = - 2000
    \<and> convert_dBFS_from_input_node_gain m 50 False = 0
    \<and> convert_dBFS_from_input_node_gain m 100 False = DEFAULT_MAX_INPUT_NODE_GAIN
    \<and> DEFAULT_MAX_INPUT_NODE_GAIN = 2000
    \<and> (50 \<le> g \<longrightarrow>
          convert_dBFS_from_input_node_gain m g True = (g - 50) * (m sdiv 50))
    \<and> (g < 50 \<longrightarrow> convert_dBFS_from_input_node_gain m g True = (g - 50) * 40)"
  using assms
  by (auto simp: convert_dBFS_from_input_node_gain_def Let_def
      DEFAULT_MAX_INPUT_NODE_GAIN_def signed_divide_int_def)

theorem convert_dBFS_from_input_node_gain_piecewise_witness:
  "(0::int) \<le> 75 \<and> (75::int) \<le> 100
   \<and> convert_dBFS_from_input_node_gain 3000 75 False = 1000
   \<and> convert_dBFS_from_input_node_gain 3000 75 True = 1500
   \<and> convert_dBFS_from_input_node_gain 3000 100 True = 3000
   \<and> convert_dBFS_from_input_node_gain 3000 20 False = - 1200
   \<and> convert_dBFS_from_input_node_gain 3000 20 True = - 1200"
  using convert_dBFS_from_input_node_gain_piecewise [of 75 3000]
    convert_dBFS_from_input_node_gain_piecewise [of 20 3000]
    convert_dBFS_from_input_node_gain_piecewise [of 100 3000]
  by (simp add: signed_divide_int_def)

subsection \<open>The audio thread\<close>


lemma handle_playback_request_selected:
  fixes stream :: "'shm client_stream"
  assumes out: "cs_direction stream = CRAS_STREAM_OUTPUT"
    and sel: "stream_cb (cs_config stream) = Some cb \<and> cb_data_errno env = None
            \<or> stream_cb (cs_config stream) = None \<and> unified_cb (cs_config stream) = Some cb
            \<or> stream_cb (cs_config stream) = None \<and> unified_cb (cs_config stream) = None
                \<and> aud_cb (cs_config stream) = cb"
  shows "handle_playback_request ops env stream n =
     (let m = min (unat n) (cb_threshold (cs_config stream));
          k = cb m;
          rc = (if aud_write_rc env \<noteq> sizeof_aud_msg env then - EPIPE else 0)
      in if sint k < 0
         then \<lparr>h_rc = rc, h_stream = stream,
               h_events = [User_callback m,
                 Stream_pipe_write \<lparr>sm_msg_id = CLIENT_STREAM_EOF, sm_stream_id = cs_id stream\<rparr>,
                 Aud_fd_write \<lparr>am_id = AUDIO_MESSAGE_DATA_READY, am_error = sint k,
                               am_frames = k\<rparr>]\<rparr>
         else \<lparr>h_rc = rc,
               h_stream = stream\<lparr>cs_shm :=
                  cras_shm_buffer_written_start ops (cs_shm stream) (nat (sint k))\<rparr>,
               h_events = [User_callback m,
                 Aud_fd_write \<lparr>am_id = AUDIO_MESSAGE_DATA_READY, am_error = 0,
                               am_frames = k\<rparr>]\<rparr>)"
proof -
  have c: "(case stream_cb (cs_config stream) of
              Some cb \<Rightarrow> (case cb_data_errno env of Some e \<Rightarrow> Inl (- e)
                          | None \<Rightarrow> Inr (cb (min (unat n) (cb_threshold (cs_config stream)))))
            | None \<Rightarrow> (case unified_cb (cs_config stream) of
                          Some cb \<Rightarrow> Inr (cb (min (unat n) (cb_threshold (cs_config stream))))
                        | None \<Rightarrow> Inr (aud_cb (cs_config stream)
                                         (min (unat n) (cb_threshold (cs_config stream))))))
           = (Inr (cb (min (unat n) (cb_threshold (cs_config stream)))) :: int + 32 word)"
    using sel by (elim disjE conjE) simp_all
  show ?thesis
    unfolding handle_playback_request_def Let_def c
    by (simp add: out send_playback_reply_def send_stream_message_def
        cras_stream_uses_output_hw_def)
qed






lemma delivers_read:
  assumes "delivers e stream msg"
  shows "read_with_wake_fd e (cs_aud_fd stream) (sizeof_aud_msg (it_handler_env e))
           = sizeof_aud_msg (it_handler_env e)"
    and "0 < sizeof_aud_msg (it_handler_env e)"
    and "it_thread_state e = CRAS_THREAD_RUNNING"
    and "aud_msg_in e = msg"
  using assms by (auto simp: delivers_def read_with_wake_fd_def)

lemma audio_thread_pass_delivers:
  assumes d: "delivers e stream msg"
  shows "audio_thread_pass ops 0 stream e =
     (case am_id msg of
        AUDIO_MESSAGE_DATA_READY \<Rightarrow>
          (let r = handle_capture_data_ready ops (it_handler_env e) stream (am_frames msg)
           in (None, h_rc r, h_stream r, h_events r))
      | AUDIO_MESSAGE_REQUEST_DATA \<Rightarrow>
          (let r = handle_playback_request ops (it_handler_env e) stream (am_frames msg)
           in (None, h_rc r, h_stream r, h_events r))
      | _ \<Rightarrow> (None, 0, stream, []))"
proof -
  note f = delivers_read [OF d]
  have "\<not> sizeof_aud_msg (it_handler_env e) < 0" "sizeof_aud_msg (it_handler_env e) \<noteq> 0"
    using f(2) by simp_all
  then show ?thesis
    unfolding audio_thread_pass_def Let_def f(4)
    by (cases "am_id msg") (simp_all add: f(1,3))
qed

lemma audio_thread_pass_short_read:
  assumes "it_thread_state e = CRAS_THREAD_RUNNING" "0 \<le> poll_rc e" "0 \<le> cs_aud_fd stream"
    "aud_pollin e" "aud_nread e \<noteq> sizeof_aud_msg (it_handler_env e)"
  shows "audio_thread_pass ops 0 stream e = (Some (Thread_returned (- EIO)), 0, stream, [])"
proof -
  have "read_with_wake_fd e (cs_aud_fd stream) (sizeof_aud_msg (it_handler_env e)) = - EIO"
    using assms by (simp add: read_with_wake_fd_def)
  then show ?thesis
    unfolding audio_thread_pass_def Let_def
    by (simp add: assms(1) EIO_def)
qed

text \<open>
  C2 as stated fails: with a complete message whose id is neither \<open>DATA_READY\<close> nor
  \<open>REQUEST_DATA\<close> the thread does not return; it drops the message and serves the
  next one. A short read makes the thread return \<open>-EIO\<close>.
\<close>

theorem audio_thread_unknown_id_counterexample:
  "audio_thread sab_ops (Some example_playback)
      [example_iter \<lparr>am_id = AUDIO_MESSAGE_OTHER 7, am_error = 0, am_frames = 0\<rparr>,
       example_iter \<lparr>am_id = AUDIO_MESSAGE_REQUEST_DATA, am_error = 0, am_frames = 1000\<rparr>]
     = (Thread_blocked,
        Some (example_playback\<lparr>cs_shm := sab_buffer_written_start example_shm 480\<rparr>),
        [User_callback 480,
         Aud_fd_write \<lparr>am_id = AUDIO_MESSAGE_DATA_READY, am_error = 0, am_frames = 480\<rparr>])
   \<and> audio_thread sab_ops (Some example_playback)
      [(example_iter \<lparr>am_id = AUDIO_MESSAGE_REQUEST_DATA, am_error = 0, am_frames = 1000\<rparr>)
         \<lparr>aud_nread := 3\<rparr>,
       example_iter \<lparr>am_id = AUDIO_MESSAGE_REQUEST_DATA, am_error = 0, am_frames = 1000\<rparr>]
     = (Thread_returned (- EIO), Some example_playback, [])"
proof -
  let ?u = "\<lparr>am_id = AUDIO_MESSAGE_OTHER 7, am_error = 0, am_frames = 0\<rparr>"
  let ?q = "\<lparr>am_id = AUDIO_MESSAGE_REQUEST_DATA, am_error = 0, am_frames = 1000\<rparr>"
  have d: "delivers (example_iter msg) example_playback msg" for msg
    by (simp add: delivers_def example_iter_def example_env_def example_playback_def)
  have p1: "audio_thread_pass sab_ops 0 example_playback (example_iter ?u)
              = (None, 0, example_playback, [])"
    using audio_thread_pass_delivers [OF d, of sab_ops ?u] by simp
  have out: "cs_direction example_playback = CRAS_STREAM_OUTPUT"
    by (simp add: example_playback_def)
  have sel: "stream_cb (cs_config example_playback) = Some (\<lambda>n. of_nat n)
                \<and> cb_data_errno example_env = None
            \<or> stream_cb (cs_config example_playback) = None
                \<and> unified_cb (cs_config example_playback) = Some (\<lambda>n. of_nat n)
            \<or> stream_cb (cs_config example_playback) = None
                \<and> unified_cb (cs_config example_playback) = None
                \<and> aud_cb (cs_config example_playback) = (\<lambda>n. of_nat n)"
    by (simp add: example_playback_def example_config_def)
  have m: "min (unat (1000 :: 32 word)) (cb_threshold (cs_config example_playback)) = 480"
    by (simp add: example_playback_def example_config_def)
  have h: "handle_playback_request sab_ops example_env example_playback 1000
      = \<lparr>h_rc = 0,
         h_stream = example_playback\<lparr>cs_shm := sab_buffer_written_start example_shm 480\<rparr>,
         h_events = [User_callback 480,
           Aud_fd_write \<lparr>am_id = AUDIO_MESSAGE_DATA_READY, am_error = 0, am_frames = 480\<rparr>]\<rparr>"
    unfolding handle_playback_request_selected [OF out sel] Let_def m
    by (simp add: example_env_def example_playback_def sab_ops_def)
  have e: "it_handler_env (example_iter msg) = example_env" for msg
    by (simp add: example_iter_def)
  have p2: "audio_thread_pass sab_ops 0 example_playback (example_iter ?q)
      = (None, 0, example_playback\<lparr>cs_shm := sab_buffer_written_start example_shm 480\<rparr>,
         [User_callback 480,
          Aud_fd_write \<lparr>am_id = AUDIO_MESSAGE_DATA_READY, am_error = 0, am_frames = 480\<rparr>])"
    using audio_thread_pass_delivers [OF d, of sab_ops ?q] by (simp add: e h)
  have p3: "audio_thread_pass sab_ops 0 example_playback ((example_iter ?q)\<lparr>aud_nread := 3\<rparr>)
      = (Some (Thread_returned (- EIO)), 0, example_playback, [])"
    by (rule audio_thread_pass_short_read)
      (simp_all add: example_iter_def example_env_def example_playback_def)
  show ?thesis
    by (simp add: audio_thread_def p1 p2 p3)
qed

text \<open>
  C2, amended. In a running stream's audio thread a short read on the audio fd (a read
  that returns a number of bytes other than the size of an audio message) is fatal: the
  thread returns \<open>-EIO\<close> at once. A complete message whose id is neither
  \<open>AUDIO_MESSAGE_DATA_READY\<close> nor \<open>AUDIO_MESSAGE_REQUEST_DATA\<close> is not fatal: it is
  dropped without any callback or write and without changing the stream, and the loop
  goes on to wait for the next message.
\<close>

theorem audio_thread_short_read_fatal_unknown_id_dropped:
  "(it_thread_state e = CRAS_THREAD_RUNNING \<and> 0 \<le> poll_rc e \<and> 0 \<le> cs_aud_fd stream
      \<and> aud_pollin e \<and> aud_nread e \<noteq> sizeof_aud_msg (it_handler_env e)
    \<longrightarrow> audio_thread_loop ops 0 stream (e # es) = (Thread_returned (- EIO), stream, []))
   \<and> (delivers e stream msg \<and> am_id msg \<noteq> AUDIO_MESSAGE_DATA_READY
      \<and> am_id msg \<noteq> AUDIO_MESSAGE_REQUEST_DATA
    \<longrightarrow> audio_thread_loop ops 0 stream (e # es) = audio_thread_loop ops 0 stream es
      \<and> audio_thread_loop ops 0 stream [e] = (Thread_blocked, stream, []))"
proof (intro conjI impI)
  assume "it_thread_state e = CRAS_THREAD_RUNNING \<and> 0 \<le> poll_rc e \<and> 0 \<le> cs_aud_fd stream
      \<and> aud_pollin e \<and> aud_nread e \<noteq> sizeof_aud_msg (it_handler_env e)"
  then have "audio_thread_pass ops 0 stream e = (Some (Thread_returned (- EIO)), 0, stream, [])"
    by (intro audio_thread_pass_short_read) simp_all
  then show "audio_thread_loop ops 0 stream (e # es) = (Thread_returned (- EIO), stream, [])"
    by simp
next
  assume a: "delivers e stream msg \<and> am_id msg \<noteq> AUDIO_MESSAGE_DATA_READY
      \<and> am_id msg \<noteq> AUDIO_MESSAGE_REQUEST_DATA"
  then have p: "audio_thread_pass ops 0 stream e = (None, 0, stream, [])"
    using audio_thread_pass_delivers [of e stream msg ops]
    by (cases "am_id msg") simp_all
  show "audio_thread_loop ops 0 stream (e # es) = audio_thread_loop ops 0 stream es"
    by (simp add: p split: prod.split)
  show "audio_thread_loop ops 0 stream [e] = (Thread_blocked, stream, [])"
    by (simp add: p)
qed

theorem audio_thread_short_read_fatal_unknown_id_dropped_witness:
  "delivers (example_iter \<lparr>am_id = AUDIO_MESSAGE_DATA_CAPTURED, am_error = 0, am_frames = 9\<rparr>)
      example_playback \<lparr>am_id = AUDIO_MESSAGE_DATA_CAPTURED, am_error = 0, am_frames = 9\<rparr>
   \<and> audio_thread_loop sab_ops 0 example_playback
        [example_iter \<lparr>am_id = AUDIO_MESSAGE_DATA_CAPTURED, am_error = 0, am_frames = 9\<rparr>]
      = (Thread_blocked, example_playback, [])
   \<and> aud_nread ((example_iter \<lparr>am_id = AUDIO_MESSAGE_DATA_CAPTURED, am_error = 0,
                                  am_frames = 9\<rparr>)\<lparr>aud_nread := 0\<rparr>) = 0
   \<and> audio_thread_loop sab_ops 0 example_playback
        [(example_iter \<lparr>am_id = AUDIO_MESSAGE_DATA_CAPTURED, am_error = 0, am_frames = 9\<rparr>)
           \<lparr>aud_nread := 0\<rparr>]
      = (Thread_returned (- EIO), example_playback, [])"
proof -
  let ?c = "\<lparr>am_id = AUDIO_MESSAGE_DATA_CAPTURED, am_error = 0, am_frames = 9\<rparr>"
  let ?s = "(example_iter ?c)\<lparr>aud_nread := 0\<rparr>"
  have d: "delivers (example_iter ?c) example_playback ?c
      \<and> am_id ?c \<noteq> AUDIO_MESSAGE_DATA_READY \<and> am_id ?c \<noteq> AUDIO_MESSAGE_REQUEST_DATA"
    by (simp add: delivers_def example_iter_def example_env_def example_playback_def)
  have s: "it_thread_state ?s = CRAS_THREAD_RUNNING \<and> 0 \<le> poll_rc ?s
      \<and> 0 \<le> cs_aud_fd example_playback \<and> aud_pollin ?s
      \<and> aud_nread ?s \<noteq> sizeof_aud_msg (it_handler_env ?s)"
    by (simp add: example_iter_def example_env_def example_playback_def)
  have z: "aud_nread ?s = 0" by simp
  note T1 = audio_thread_short_read_fatal_unknown_id_dropped
        [of "example_iter ?c" example_playback sab_ops "[]" ?c, THEN conjunct2, THEN mp, OF d,
          THEN conjunct2]
  note T2 = audio_thread_short_read_fatal_unknown_id_dropped
        [of ?s example_playback sab_ops "[]" ?c, THEN conjunct1, THEN mp, OF s]
  from d [THEN conjunct1] T1 z T2 show ?thesis by (intro conjI)
qed

text \<open>
  C3. For a capture stream (a direction with input), when \<open>DATA_READY\<close> arrives with
  frame count \<open>n\<close> and the frames currently readable in the shared buffer are fewer
  than \<open>n\<close> clamped to \<open>cb_threshold\<close> (to \<open>buffer_frames\<close> for a stream with
  \<open>BULK_AUDIO_OK\<close>), the handler returns 0 with no event at all (no user callback, no
  write on the stream pipe or the audio fd) and with the stream, hence the shared
  buffer and its read pointer, unchanged; the audio thread then just waits for the next
  message.
\<close>

theorem handle_capture_data_ready_overrun:
  fixes stream :: "'shm client_stream"
  assumes "cras_stream_has_input (cs_direction stream)"
    and "cras_shm_get_curr_read_frames ops (cs_shm stream)
           < min (unat n) (if cs_flags stream AND BULK_AUDIO_OK env \<noteq> 0
                           then buffer_frames (cs_config stream)
                           else cb_threshold (cs_config stream))"
  shows "handle_capture_data_ready ops env stream n
           = \<lparr>h_rc = 0, h_stream = stream, h_events = []\<rparr>
       \<and> (delivers e stream \<lparr>am_id = AUDIO_MESSAGE_DATA_READY, am_error = err, am_frames = n\<rparr>
            \<and> it_handler_env e = env
          \<longrightarrow> audio_thread_loop ops 0 stream (e # es) = audio_thread_loop ops 0 stream es)"
proof (intro conjI impI)
  have "config_capture_buf ops env stream (unat n) = 0"
    using assms(2) by (simp add: config_capture_buf_def Let_def split: if_splits)
  then show h: "handle_capture_data_ready ops env stream n
           = \<lparr>h_rc = 0, h_stream = stream, h_events = []\<rparr>"
    unfolding handle_capture_data_ready_def Let_def
    by (simp add: assms(1))
  assume "delivers e stream \<lparr>am_id = AUDIO_MESSAGE_DATA_READY, am_error = err, am_frames = n\<rparr>
            \<and> it_handler_env e = env"
  then have "audio_thread_pass ops 0 stream e = (None, 0, stream, [])"
    using audio_thread_pass_delivers
      [of e stream "\<lparr>am_id = AUDIO_MESSAGE_DATA_READY, am_error = err, am_frames = n\<rparr>" ops]
    by (simp add: h)
  then show "audio_thread_loop ops 0 stream (e # es) = audio_thread_loop ops 0 stream es"
    by (simp split: prod.split)
qed

theorem handle_capture_data_ready_overrun_witness:
  "cras_stream_has_input (cs_direction example_capture)
   \<and> cras_shm_get_curr_read_frames sab_ops (cs_shm example_capture) = 0
   \<and> min (unat (1000 :: 32 word))
        (if cs_flags example_capture AND BULK_AUDIO_OK example_env \<noteq> 0
         then buffer_frames (cs_config example_capture)
         else cb_threshold (cs_config example_capture)) = 480
   \<and> handle_capture_data_ready sab_ops example_env example_capture 1000
        = \<lparr>h_rc = 0, h_stream = example_capture, h_events = []\<rparr>"
proof -
  have a: "cras_stream_has_input (cs_direction example_capture)"
    by (simp add: example_capture_def cras_stream_has_input_def)
  have r: "cras_shm_get_curr_read_frames sab_ops (cs_shm example_capture) = 0"
    by (simp add: example_capture_def example_playback_def example_shm_def sab_ops_def
        sab_get_curr_read_frames_def)
  have c: "min (unat (1000 :: 32 word))
        (if cs_flags example_capture AND BULK_AUDIO_OK example_env \<noteq> 0
         then buffer_frames (cs_config example_capture)
         else cb_threshold (cs_config example_capture)) = 480"
    by (simp add: example_capture_def example_playback_def example_config_def)
  have lt: "cras_shm_get_curr_read_frames sab_ops (cs_shm example_capture)
           < min (unat (1000 :: 32 word))
               (if cs_flags example_capture AND BULK_AUDIO_OK example_env \<noteq> 0
                then buffer_frames (cs_config example_capture)
                else cb_threshold (cs_config example_capture))"
    unfolding r c by simp
  from handle_capture_data_ready_overrun [OF a lt, THEN conjunct1] a r c show ?thesis
    by (intro conjI)
qed


subsection \<open>Stream ids\<close>


lemma cras_get_stream_id_high: "ucast (drop_bit 16 (cras_get_stream_id c i)) = c"
  unfolding cras_get_stream_id_def
  by (rule bit_word_eqI) (auto simp: bit_simps dest: bit_imp_le_length)




























subsection \<open>Flexible loopback requests\<close>

lemma floop_scan_match:
  "floop_scan m l c = Inl fp \<Longrightarrow> find m l = Some fp"
  by (induction l arbitrary: c) (auto split: if_splits)

lemma floop_scan_Inl:
  "find m l = Some fp \<Longrightarrow> floop_scan m l c = Inl fp"
  by (induction l arbitrary: c) (auto split: if_splits)

lemma floop_scan_Inr:
  "find m l = None \<Longrightarrow> floop_scan m l c = Inr (c + length l)"
  by (induction l arbitrary: c) (auto split: if_splits)

text \<open>
  C6 as stated fails in its last case: when the request matches no pair and the list is
  not full, but \<open>cras_floop_pair_create\<close> cannot create the pair, the function
  returns \<open>-ENOMEM\<close> and appends nothing.
\<close>

theorem request_floop_nomem_counterexample:
  "cras_iodev_list_request_floop example_floop_env_nomem [] 5
     = \<lparr>rf_rc = - ENOMEM, rf_list = [], rf_create_called = True\<rparr>"
  by (simp add: cras_iodev_list_request_floop_def example_floop_env_nomem_def
      example_floop_env_def NUM_FLOOP_PAIRS_MAX_def)


text \<open>
  C6, amended. With the flexible-loopback feature enabled: if a pair matching the
  request exists, the request returns the input device index of the first such pair,
  without calling \<open>cras_floop_pair_create\<close> and with the list unchanged; otherwise, if
  the list holds \<open>NUM_FLOOP_PAIRS_MAX = 20\<close> pairs or more, it returns \<open>-EAGAIN\<close>, again
  with no creation and the list unchanged (the 21st distinct request); otherwise it
  calls \<open>cras_floop_pair_create\<close>, and if that yields a pair it appends exactly that
  pair and returns its input device index, while if it fails the request returns
  \<open>-ENOMEM\<close> and the list is unchanged.
\<close>

theorem cras_iodev_list_request_floop_cases:
  fixes env :: "('pair, 'params) floop_env" and params :: 'params and l :: "'pair list"
  assumes en: "feature_flexible_loopback env"
  defines "m \<equiv> (\<lambda>fpair. cras_floop_pair_match_params env fpair params)"
  defines "r \<equiv> cras_iodev_list_request_floop env l params"
  shows "(find m l = Some fpair \<longrightarrow>
            r = \<lparr>rf_rc = sint (floop_input_idx env fpair), rf_list = l, rf_create_called = False\<rparr>)
       \<and> ((\<forall>fp \<in> set l. \<not> m fp) \<and> length l \<ge> NUM_FLOOP_PAIRS_MAX \<longrightarrow>
            r = \<lparr>rf_rc = - EAGAIN, rf_list = l, rf_create_called = False\<rparr>)
       \<and> ((\<forall>fp \<in> set l. \<not> m fp) \<and> length l < NUM_FLOOP_PAIRS_MAX
            \<and> cras_floop_pair_create env params = Some fpair \<longrightarrow>
            r = \<lparr>rf_rc = sint (floop_input_idx env fpair), rf_list = l @ [fpair],
                 rf_create_called = True\<rparr>)
       \<and> ((\<forall>fp \<in> set l. \<not> m fp) \<and> length l < NUM_FLOOP_PAIRS_MAX
            \<and> cras_floop_pair_create env params = None \<longrightarrow>
            r = \<lparr>rf_rc = - ENOMEM, rf_list = l, rf_create_called = True\<rparr>)
       \<and> NUM_FLOOP_PAIRS_MAX = 20 \<and> EAGAIN = 11"
proof (intro conjI impI)
  assume "find m l = Some fpair"
  then have "floop_scan m l 0 = Inl fpair" by (rule floop_scan_Inl)
  then show "r = \<lparr>rf_rc = sint (floop_input_idx env fpair), rf_list = l, rf_create_called = False\<rparr>"
    unfolding r_def cras_iodev_list_request_floop_def m_def [symmetric]
    by (simp add: en)
next
  assume a: "(\<forall>fp \<in> set l. \<not> m fp) \<and> length l \<ge> NUM_FLOOP_PAIRS_MAX"
  then have "find m l = None" by (simp add: find_None_iff)
  then have "floop_scan m l 0 = Inr (length l)" using floop_scan_Inr [of m l 0] by simp
  then show "r = \<lparr>rf_rc = - EAGAIN, rf_list = l, rf_create_called = False\<rparr>"
    unfolding r_def cras_iodev_list_request_floop_def m_def [symmetric]
    using a by (simp add: en)
next
  assume a: "(\<forall>fp \<in> set l. \<not> m fp) \<and> length l < NUM_FLOOP_PAIRS_MAX
            \<and> cras_floop_pair_create env params = Some fpair"
  then have "find m l = None" by (simp add: find_None_iff)
  then have "floop_scan m l 0 = Inr (length l)" using floop_scan_Inr [of m l 0] by simp
  then show "r = \<lparr>rf_rc = sint (floop_input_idx env fpair), rf_list = l @ [fpair],
                 rf_create_called = True\<rparr>"
    unfolding r_def cras_iodev_list_request_floop_def m_def [symmetric]
    using a by (simp add: en)
next
  assume a: "(\<forall>fp \<in> set l. \<not> m fp) \<and> length l < NUM_FLOOP_PAIRS_MAX
            \<and> cras_floop_pair_create env params = None"
  then have "find m l = None" by (simp add: find_None_iff)
  then have "floop_scan m l 0 = Inr (length l)" using floop_scan_Inr [of m l 0] by simp
  then show "r = \<lparr>rf_rc = - ENOMEM, rf_list = l, rf_create_called = True\<rparr>"
    unfolding r_def cras_iodev_list_request_floop_def m_def [symmetric]
    using a by (simp add: en)
qed (simp_all add: NUM_FLOOP_PAIRS_MAX_def EAGAIN_def)

theorem cras_iodev_list_request_floop_cases_witness:
  "feature_flexible_loopback example_floop_env
   \<and> length example_floop_pairs = 20
   \<and> cras_iodev_list_request_floop example_floop_env example_floop_pairs 21
       = \<lparr>rf_rc = - 11, rf_list = example_floop_pairs, rf_create_called = False\<rparr>
   \<and> cras_iodev_list_request_floop example_floop_env example_floop_pairs 5
       = \<lparr>rf_rc = 105, rf_list = example_floop_pairs, rf_create_called = False\<rparr>
   \<and> cras_iodev_list_request_floop example_floop_env [(1, 101)] 5
       = \<lparr>rf_rc = 105, rf_list = [(1, 101), (5, 105)], rf_create_called = True\<rparr>
   \<and> cras_iodev_list_request_floop example_floop_env_nomem [(1, 101)] 5
       = \<lparr>rf_rc = - 12, rf_list = [(1, 101)], rf_create_called = True\<rparr>
   \<and> fst (request_floop_seq example_floop_env [] [5, 5, 7]) = [105, 105, 107]"
proof -
  have en: "feature_flexible_loopback example_floop_env"
    "feature_flexible_loopback example_floop_env_nomem"
    by (simp_all add: example_floop_env_def example_floop_env_nomem_def)
  have len: "length example_floop_pairs = 20" by (simp add: example_floop_pairs_def)
  have none21: "(\<forall>fp \<in> set example_floop_pairs.
                   \<not> cras_floop_pair_match_params example_floop_env fp 21)
                \<and> length example_floop_pairs \<ge> NUM_FLOOP_PAIRS_MAX"
    by (simp add: example_floop_pairs_def example_floop_env_def NUM_FLOOP_PAIRS_MAX_def)
  have find5: "find (\<lambda>fpair. cras_floop_pair_match_params example_floop_env fpair 5)
                 example_floop_pairs = Some (5, 105)"
    by (simp add: example_floop_pairs_def example_floop_env_def)
  have new5: "(\<forall>fp \<in> set [(1, 101)]. \<not> cras_floop_pair_match_params example_floop_env fp 5)
                \<and> length [(1 :: 32 word, 101 :: 32 word)] < NUM_FLOOP_PAIRS_MAX
                \<and> cras_floop_pair_create example_floop_env 5 = Some (5, 105)"
    by (simp add: example_floop_env_def NUM_FLOOP_PAIRS_MAX_def)
  have nomem5: "(\<forall>fp \<in> set [(1, 101)].
                    \<not> cras_floop_pair_match_params example_floop_env_nomem fp 5)
                \<and> length [(1 :: 32 word, 101 :: 32 word)] < NUM_FLOOP_PAIRS_MAX
                \<and> cras_floop_pair_create example_floop_env_nomem 5 = None"
    by (simp add: example_floop_env_def example_floop_env_nomem_def NUM_FLOOP_PAIRS_MAX_def)
  have idx: "sint (floop_input_idx example_floop_env (5, 105)) = 105"
    by (simp add: example_floop_env_def)
  note A = cras_iodev_list_request_floop_cases
    [OF en(1), where l = example_floop_pairs and params = 21,
      THEN conjunct2, THEN conjunct1, THEN mp, OF none21]
  note B = cras_iodev_list_request_floop_cases
    [OF en(1), where l = example_floop_pairs and params = 5 and fpair = "(5, 105)",
      THEN conjunct1, THEN mp, OF find5]
  note C = cras_iodev_list_request_floop_cases
    [OF en(1), where l = "[(1, 101)]" and params = 5 and fpair = "(5, 105)",
      THEN conjunct2, THEN conjunct2, THEN conjunct1, THEN mp, OF new5]
  note D = cras_iodev_list_request_floop_cases
    [OF en(2), where l = "[(1, 101)]" and params = 5,
      THEN conjunct2, THEN conjunct2, THEN conjunct2, THEN conjunct1, THEN mp, OF nomem5]
  have a: "cras_iodev_list_request_floop example_floop_env example_floop_pairs 21
       = \<lparr>rf_rc = - 11, rf_list = example_floop_pairs, rf_create_called = False\<rparr>"
    using A by (simp add: EAGAIN_def)
  have b: "cras_iodev_list_request_floop example_floop_env example_floop_pairs 5
       = \<lparr>rf_rc = 105, rf_list = example_floop_pairs, rf_create_called = False\<rparr>"
    using B by (simp only: idx)
  have c: "cras_iodev_list_request_floop example_floop_env [(1, 101)] 5
       = \<lparr>rf_rc = 105, rf_list = [(1, 101), (5, 105)], rf_create_called = True\<rparr>"
    using C by (simp only: idx) simp
  have d: "cras_iodev_list_request_floop example_floop_env_nomem [(1, 101)] 5
       = \<lparr>rf_rc = - 12, rf_list = [(1, 101)], rf_create_called = True\<rparr>"
    using D by (simp add: ENOMEM_def)
  have e: "fst (request_floop_seq example_floop_env [] [5, 5, 7]) = [105, 105, 107]"
    by (simp add: cras_iodev_list_request_floop_def example_floop_env_def
        NUM_FLOOP_PAIRS_MAX_def)
  from en(1) len a b c d e show ?thesis by (intro conjI)
qed

subsection \<open>The NC-blocked state\<close>

text \<open>
  C4 as stated fails twice. In NC standalone mode the blocked flag ignores
  \<open>aec_on_dsp_is_disallowed\<close>, so it differs from the disjunction; and when DSP noise
  cancellation is not supported (or blocking is bypassed) a change of the flag's value
  fires no notification.
\<close>

theorem nc_blocked_state_counterexample:
  "get_nc_blocked_state
      \<lparr>noise_cancellation_standalone_mode = True, dsp_noise_cancellation_supported = True,
       bypass_block_noise_cancellation = False\<rparr>
      \<lparr>non_dsp_aec_echo_ref_dev_alive = False, aec_on_dsp_is_disallowed = True\<rparr>
     \<noteq> (False \<or> True)
   \<and> get_nc_blocked_state
      \<lparr>noise_cancellation_standalone_mode = False, dsp_noise_cancellation_supported = False,
       bypass_block_noise_cancellation = False\<rparr>
      \<lparr>non_dsp_aec_echo_ref_dev_alive = False, aec_on_dsp_is_disallowed = False\<rparr> = False
   \<and> update_nc_blocked_state
      \<lparr>noise_cancellation_standalone_mode = False, dsp_noise_cancellation_supported = False,
       bypass_block_noise_cancellation = False\<rparr>
      \<lparr>non_dsp_aec_echo_ref_dev_alive = False, aec_on_dsp_is_disallowed = False\<rparr> True False
     = (\<lparr>non_dsp_aec_echo_ref_dev_alive = True, aec_on_dsp_is_disallowed = False\<rparr>, [])
   \<and> get_nc_blocked_state
      \<lparr>noise_cancellation_standalone_mode = False, dsp_noise_cancellation_supported = False,
       bypass_block_noise_cancellation = False\<rparr>
      \<lparr>non_dsp_aec_echo_ref_dev_alive = True, aec_on_dsp_is_disallowed = False\<rparr> = True"
  by (simp add: get_nc_blocked_state_def update_nc_blocked_state_def)

text \<open>
  C4, amended. The NC-blocked flag equals \<open>non_dsp_aec_echo_ref_dev_alive OR
  aec_on_dsp_is_disallowed\<close> whenever NC standalone mode is off; in standalone mode it
  equals \<open>non_dsp_aec_echo_ref_dev_alive\<close> alone. \<open>update_nc_blocked_state\<close> stores the
  two new conditions, and it fires exactly one \<open>NODES_CHANGED\<close> notification when the
  flag's value changes while DSP noise cancellation is supported and blocking is not
  bypassed; in every other case it fires none.
\<close>

theorem nc_blocked_state_update:
  "(\<not> noise_cancellation_standalone_mode sys \<longrightarrow>
       get_nc_blocked_state sys flags
         = (non_dsp_aec_echo_ref_dev_alive flags \<or> aec_on_dsp_is_disallowed flags))
   \<and> (noise_cancellation_standalone_mode sys \<longrightarrow>
       get_nc_blocked_state sys flags = non_dsp_aec_echo_ref_dev_alive flags)
   \<and> fst (update_nc_blocked_state sys flags a b)
       = \<lparr>non_dsp_aec_echo_ref_dev_alive = a, aec_on_dsp_is_disallowed = b\<rparr>
   \<and> count_list (snd (update_nc_blocked_state sys flags a b)) Notify_nodes_changed
       = (if get_nc_blocked_state sys flags
               \<noteq> get_nc_blocked_state sys (fst (update_nc_blocked_state sys flags a b))
             \<and> dsp_noise_cancellation_supported sys
             \<and> \<not> bypass_block_noise_cancellation sys
          then 1 else 0)"
proof (intro conjI impI)
  show f: "fst (update_nc_blocked_state sys flags a b)
       = \<lparr>non_dsp_aec_echo_ref_dev_alive = a, aec_on_dsp_is_disallowed = b\<rparr>"
    by (simp add: update_nc_blocked_state_def Let_def)
  show "count_list (snd (update_nc_blocked_state sys flags a b)) Notify_nodes_changed
       = (if get_nc_blocked_state sys flags
               \<noteq> get_nc_blocked_state sys (fst (update_nc_blocked_state sys flags a b))
             \<and> dsp_noise_cancellation_supported sys
             \<and> \<not> bypass_block_noise_cancellation sys
          then 1 else 0)"
    unfolding f by (simp add: update_nc_blocked_state_def Let_def)
qed (simp_all add: get_nc_blocked_state_def)

theorem nc_blocked_state_update_witness:
  "get_nc_blocked_state
      \<lparr>noise_cancellation_standalone_mode = False, dsp_noise_cancellation_supported = True,
       bypass_block_noise_cancellation = False\<rparr>
      \<lparr>non_dsp_aec_echo_ref_dev_alive = False, aec_on_dsp_is_disallowed = True\<rparr> = True
   \<and> get_nc_blocked_state
      \<lparr>noise_cancellation_standalone_mode = True, dsp_noise_cancellation_supported = True,
       bypass_block_noise_cancellation = False\<rparr>
      \<lparr>non_dsp_aec_echo_ref_dev_alive = False, aec_on_dsp_is_disallowed = True\<rparr> = False
   \<and> count_list (snd (update_nc_blocked_state
      \<lparr>noise_cancellation_standalone_mode = False, dsp_noise_cancellation_supported = True,
       bypass_block_noise_cancellation = False\<rparr>
      \<lparr>non_dsp_aec_echo_ref_dev_alive = False, aec_on_dsp_is_disallowed = False\<rparr> True False))
      Notify_nodes_changed = 1
   \<and> count_list (snd (update_nc_blocked_state
      \<lparr>noise_cancellation_standalone_mode = False, dsp_noise_cancellation_supported = True,
       bypass_block_noise_cancellation = False\<rparr>
      \<lparr>non_dsp_aec_echo_ref_dev_alive = True, aec_on_dsp_is_disallowed = False\<rparr> True True))
      Notify_nodes_changed = 0"
proof -
  let ?on = "\<lparr>noise_cancellation_standalone_mode = False, dsp_noise_cancellation_supported = True,
       bypass_block_noise_cancellation = False\<rparr>"
  let ?sa = "\<lparr>noise_cancellation_standalone_mode = True, dsp_noise_cancellation_supported = True,
       bypass_block_noise_cancellation = False\<rparr>"
  let ?ft = "\<lparr>non_dsp_aec_echo_ref_dev_alive = False, aec_on_dsp_is_disallowed = True\<rparr>"
  let ?ff = "\<lparr>non_dsp_aec_echo_ref_dev_alive = False, aec_on_dsp_is_disallowed = False\<rparr>"
  let ?tf = "\<lparr>non_dsp_aec_echo_ref_dev_alive = True, aec_on_dsp_is_disallowed = False\<rparr>"
  have a: "get_nc_blocked_state ?on ?ft = True"
    using nc_blocked_state_update [of ?on ?ft False False, THEN conjunct1] by simp
  have b: "get_nc_blocked_state ?sa ?ft = False"
    using nc_blocked_state_update [of ?sa ?ft False False, THEN conjunct2, THEN conjunct1]
    by simp
  have g: "get_nc_blocked_state ?on ?ff = False" "get_nc_blocked_state ?on ?tf = True"
    "get_nc_blocked_state ?on \<lparr>non_dsp_aec_echo_ref_dev_alive = True,
        aec_on_dsp_is_disallowed = True\<rparr> = True"
    by (simp_all add: get_nc_blocked_state_def)
  note U1 = nc_blocked_state_update [of ?on ?ff True False]
  note U2 = nc_blocked_state_update [of ?on ?tf True True]
  have c: "count_list (snd (update_nc_blocked_state ?on ?ff True False)) Notify_nodes_changed = 1"
    using U1 [THEN conjunct2, THEN conjunct2, THEN conjunct2]
    unfolding U1 [THEN conjunct2, THEN conjunct2, THEN conjunct1] g by simp
  have d: "count_list (snd (update_nc_blocked_state ?on ?tf True True)) Notify_nodes_changed = 0"
    using U2 [THEN conjunct2, THEN conjunct2, THEN conjunct2]
    unfolding U2 [THEN conjunct2, THEN conjunct2, THEN conjunct1] g by simp
  from a b c d show ?thesis by (intro conjI)
qed


end
